theory Spec2Isabelle
  imports Complex_Main "HOL-Library.Log_Nat"
begin

section \<open>Python values\<close>

text \<open>
  Numbers are exact rationals: the spec's data model calls every amount a decimal, and
  the rounding of IEEE-754 doubles (and their NaN and infinities) is outside this model.
  A \<open>char\<close> is a byte, so texts are ASCII texts.

  \<open>json\<close> is the type of the Python objects that \<open>response.json()\<close> produces and that
  the resolver hands on: \<open>JNull\<close> is \<open>None\<close>, \<open>JObj\<close> lists the items of a dict in
  order (keys distinct).
\<close>

datatype json =
    JNull
  | JBool bool
  | JNum rat
  | JStr string
  | JArr "json list"
  | JObj "(string \<times> json) list"

text \<open>Truthiness, as \<open>if x\<close> and \<open>x and ...\<close> test it.\<close>

fun truthy :: "json \<Rightarrow> bool" where
  "truthy JNull = False"
| "truthy (JBool b) = b"
| "truthy (JNum r) = (r \<noteq> 0)"
| "truthy (JStr s) = (s \<noteq> [])"
| "truthy (JArr xs) = (xs \<noteq> [])"
| "truthy (JObj kvs) = (kvs \<noteq> [])"

text \<open>\<open>needle in hay\<close> on strings: substring search.\<close>

fun str_in :: "string \<Rightarrow> string \<Rightarrow> bool" where
  "str_in needle [] = (needle = [])"
| "str_in needle (c # cs) = (take (length needle) (c # cs) = needle \<or> str_in needle cs)"

definition char_lower :: "char \<Rightarrow> char" where
  "char_lower c =
     (let n = (of_char c :: nat) in if 65 \<le> n \<and> n \<le> 90 then char_of (n + 32) else c)"

definition lower :: "string \<Rightarrow> string" where
  "lower s = map char_lower s"

section \<open>Holdings and the network\<close>

record holding =
  instrument :: string
  quantity :: rat
  avg_cost :: rat
  invested :: rat
  current_value :: rat
  asset_class :: string
  sector :: string

text \<open>
  What \<open>requests.get\<close> gives: an exception (\<open>None\<close> here), or a response with its
  status code and its body; the body is \<open>None\<close> when \<open>response.json()\<close> raises.
\<close>

record http_response =
  status_code :: int
  body :: "json option"

text \<open>
  The outside world of one calculation: the answer of the equities provider for an
  instrument key, of the fund search for a query, of the NAV endpoint for a scheme code,
  and Python's \<open>float\<close> on a string (\<open>None\<close> when it raises \<open>ValueError\<close>).
\<close>

record world =
  upstox_ltp :: "string \<Rightarrow> http_response option"
  mf_search :: "string \<Rightarrow> http_response option"
  mf_scheme :: "json \<Rightarrow> http_response option"
  float_of_str :: "string \<Rightarrow> rat option"

section \<open>Price resolver\<close>

definition map_to_upstox_symbol :: "string \<Rightarrow> string" where
  "map_to_upstox_symbol symbol =
     (case map_of
        [(''GOLD1'', ''NSE_EQ|INE970I01023''),
         (''NATIONALUM'', ''NSE_EQ|INE139A01034''),
         (''OIL'', ''NSE_EQ|INE213A01029'')] symbol of
        Some k \<Rightarrow> k
      | None \<Rightarrow> ''NSE_EQ|'' @ symbol)"

text \<open>
  The scan of \<open>data['data'].items()\<close>. \<open>None\<close>: an exception was raised (the caller's
  \<open>except\<close> returns \<open>None\<close>); \<open>Some None\<close>: the loop ended without a \<open>return\<close>;
  \<open>Some (Some p)\<close>: \<open>return price\<close>.
  \<open>'last_price' in price_data\<close> is a key test on a dict, a substring test on a string,
  a membership test on a list and a \<open>TypeError\<close> on a number or \<open>True\<close>;
  \<open>price_data['last_price']\<close> raises on a string or a list.
\<close>

fun scan_last_price :: "(string \<times> json) list \<Rightarrow> json option option" where
  "scan_last_price [] = Some None"
| "scan_last_price ((key, price_data) # rest) =
     (if \<not> truthy price_data then scan_last_price rest
      else case price_data of
        JObj kvs \<Rightarrow>
          (case map_of kvs ''last_price'' of
             Some price \<Rightarrow> Some (Some price)
           | None \<Rightarrow> scan_last_price rest)
      | JStr s \<Rightarrow> (if str_in ''last_price'' s then None else scan_last_price rest)
      | JArr xs \<Rightarrow> (if JStr ''last_price'' \<in> set xs then None else scan_last_price rest)
      | _ \<Rightarrow> None)"

text \<open>
  \<open>get_upstox_stock_price\<close>. The result is a Python object: the price found,
  the string \<open>"TOKEN_EXPIRED"\<close>, or \<open>None\<close>.
\<close>

definition get_upstox_stock_price :: "world \<Rightarrow> string \<Rightarrow> json" where
  "get_upstox_stock_price w symbol =
     (case upstox_ltp w (map_to_upstox_symbol symbol) of
        None \<Rightarrow> JNull
      | Some response \<Rightarrow>
          (let fall_through =
                 (if status_code response = 401 then JStr ''TOKEN_EXPIRED'' else JNull)
           in if status_code response = 200 then
                (case body response of
                   None \<Rightarrow> JNull
                 | Some (JObj data) \<Rightarrow>
                     (if map_of data ''status'' = Some (JStr ''success'')
                         \<and> map_of data ''data'' \<noteq> None then
                        (case map_of data ''data'' of
                           Some (JObj items) \<Rightarrow>
                             (case scan_last_price items of
                                None \<Rightarrow> JNull
                              | Some (Some price) \<Rightarrow> price
                              | Some None \<Rightarrow> fall_through)
                         | _ \<Rightarrow> JNull)
                      else fall_through)
                 | Some _ \<Rightarrow> JNull)
              else fall_through))"

text \<open>\<open>float(x)\<close> on a Python object; \<open>None\<close> when it raises.\<close>

definition py_float :: "world \<Rightarrow> json \<Rightarrow> rat option" where
  "py_float w x =
     (case x of
        JNum r \<Rightarrow> Some r
      | JBool b \<Rightarrow> Some (if b then 1 else 0)
      | JStr s \<Rightarrow> float_of_str w s
      | _ \<Rightarrow> None)"

text \<open>\<open>x[key]\<close> with a string key: only a dict that has the key does not raise.\<close>

definition subscript :: "json \<Rightarrow> string \<Rightarrow> json option" where
  "subscript x key = (case x of JObj kvs \<Rightarrow> map_of kvs key | _ \<Rightarrow> None)"

text \<open>
  \<open>x[0]['k']\<close>: the first element of a non-empty list, then its key. On a string
  \<open>x[0]\<close> is a string, whose subscript by a string raises; a dict has no key \<open>0\<close>.
\<close>

definition first_then :: "json \<Rightarrow> string \<Rightarrow> json option" where
  "first_then x key = (case x of JArr (e # _) \<Rightarrow> subscript e key | _ \<Rightarrow> None)"

text \<open>\<open>scheme_name.replace(' ', '%20')\<close>\<close>

definition replace_spaces :: "string \<Rightarrow> string" where
  "replace_spaces s = concat (map (\<lambda>c. if c = CHR '' '' then ''%20'' else [c]) s)"

text \<open>
  \<open>get_mf_nav\<close>. \<open>len(search_results)\<close> raises on a number and on \<open>True\<close>; every
  exception and every fall-through ends in \<open>return None\<close>. The two requests and the
  parsing of the NAV:
\<close>

definition search_scheme_code :: "world \<Rightarrow> string \<Rightarrow> json option" where
  "search_scheme_code w scheme_name =
     (case mf_search w (replace_spaces scheme_name) of
        None \<Rightarrow> None
      | Some response \<Rightarrow>
          (if status_code response \<noteq> 200 then None
           else (case body response of
                   None \<Rightarrow> None
                 | Some search_results \<Rightarrow>
                     (if \<not> truthy search_results then None
                      else first_then search_results ''schemeCode''))))"

definition latest_nav_of :: "world \<Rightarrow> json \<Rightarrow> rat option" where
  "latest_nav_of w nav_data =
     (case subscript nav_data ''meta'' of
        None \<Rightarrow> None
      | Some meta \<Rightarrow>
          (case subscript meta ''fund_house'' of
             None \<Rightarrow> None
           | Some fund_house \<Rightarrow>
               (if \<not> truthy fund_house then None
                else (case subscript nav_data ''data'' of
                        None \<Rightarrow> None
                      | Some d \<Rightarrow>
                          (case first_then d ''nav'' of
                             None \<Rightarrow> None
                           | Some latest_nav \<Rightarrow> py_float w latest_nav)))))"

definition get_mf_nav :: "world \<Rightarrow> string \<Rightarrow> json" where
  "get_mf_nav w scheme_name =
     (case search_scheme_code w scheme_name of
        None \<Rightarrow> JNull
      | Some scheme_code \<Rightarrow>
          (case mf_scheme w scheme_code of
             None \<Rightarrow> JNull
           | Some nav_response \<Rightarrow>
               (if status_code nav_response \<noteq> 200 then JNull
                else (case body nav_response of
                        None \<Rightarrow> JNull
                      | Some nav_data \<Rightarrow>
                          (case latest_nav_of w nav_data of
                             None \<Rightarrow> JNull
                           | Some v \<Rightarrow> JNum v)))))"

text \<open>The choice of provider at the head of the loop body of \<open>calculate_portfolio_pl\<close>.\<close>

definition resolve_price :: "world \<Rightarrow> holding \<Rightarrow> json" where
  "resolve_price w h =
     (if asset_class h = ''Equity'' then get_upstox_stock_price w (instrument h)
      else if str_in ''fund'' (lower (instrument h)) \<or> str_in ''mutual'' (lower (instrument h))
      then get_mf_nav w (instrument h)
      else JNull)"

section \<open>P&L aggregator\<close>

record pl_line =
  pl_instrument :: string
  pl_invested :: rat
  pl_current_value :: rat
  pl_amount :: rat
  pl_percentage :: rat
  pl_current_price :: json

record pl_data =
  total_invested :: rat
  total_current_value :: rat
  total_pl :: rat
  total_pl_percentage :: rat
  details :: "pl_line list"
  timestamp :: string

text \<open>
  \<open>current_price and isinstance(current_price, (int, float)) and current_price > 0\<close>.
  \<open>bool\<close> is a subclass of \<open>int\<close>, so \<open>True\<close> passes (as the number 1).
\<close>

fun live_price :: "json \<Rightarrow> rat option" where
  "live_price (JNum r) = (if r \<noteq> 0 \<and> r > 0 then Some r else None)"
| "live_price (JBool b) = (if b then Some 1 else None)"
| "live_price _ = None"

text \<open>
  The loop of \<open>calculate_portfolio_pl\<close>, with its three accumulators
  \<open>total_invested\<close>, \<open>total_current_value\<close> and \<open>pl_details\<close>.
\<close>

fun pl_loop :: "world \<Rightarrow> holding list \<Rightarrow> rat \<times> rat \<times> pl_line list \<Rightarrow> rat \<times> rat \<times> pl_line list" where
  "pl_loop w [] acc = acc"
| "pl_loop w (h # hs) (tot_invested, tot_current_value, pl_details) =
     (let current_price = resolve_price w h in
      case live_price current_price of
        Some price \<Rightarrow>
          (let cur_value = quantity h * price;
               amount = cur_value - invested h;
               percentage = (if invested h > 0 then (amount / invested h) * 100 else 0)
           in pl_loop w hs
                (tot_invested + invested h,
                 tot_current_value + cur_value,
                 pl_details @
                   [\<lparr>pl_instrument = instrument h, pl_invested = invested h,
                     pl_current_value = cur_value, pl_amount = amount,
                     pl_percentage = percentage, pl_current_price = current_price\<rparr>]))
      | None \<Rightarrow>
          (let cur_value = current_value h
           in pl_loop w hs
                (tot_invested + invested h,
                 tot_current_value + cur_value,
                 pl_details @
                   [\<lparr>pl_instrument = instrument h, pl_invested = invested h,
                     pl_current_value = cur_value, pl_amount = cur_value - invested h,
                     pl_percentage =
                       (if invested h > 0
                        then ((cur_value - invested h) / invested h) * 100 else 0),
                     pl_current_price = JStr ''API_FAILED''\<rparr>])))"

text \<open>
  \<open>calculate_portfolio_pl\<close>; \<open>now\<close> is \<open>datetime.now().isoformat()\<close>. Nothing in the
  body raises on holdings of this type, so the \<open>except\<close> branch (\<open>return None\<close>) is
  not reached and the result is the dictionary itself.
\<close>

definition calculate_portfolio_pl :: "world \<Rightarrow> string \<Rightarrow> holding list \<Rightarrow> pl_data" where
  "calculate_portfolio_pl w now holdings =
     (case pl_loop w holdings (0, 0, []) of
        (tot_invested, tot_current_value, pl_details) \<Rightarrow>
          (let tot_pl = tot_current_value - tot_invested;
               tot_pl_percentage =
                 (if tot_invested > 0 then (tot_pl / tot_invested) * 100 else 0)
           in \<lparr>total_invested = tot_invested,
               total_current_value = tot_current_value,
               total_pl = tot_pl,
               total_pl_percentage = tot_pl_percentage,
               details = pl_details,
               timestamp = now\<rparr>))"


section \<open>Sentiment heuristic\<close>

definition strong_positive :: "string list" where
  "strong_positive = [''exceptional'', ''stellar'', ''outperform'', ''breakthrough'', ''surge'',
     ''exceeding'', ''robust'', ''superior'']"

definition positive :: "string list" where
  "positive = [''strong'', ''growth'', ''increase'', ''gain'', ''rising'', ''improved'',
     ''bullish'', ''optimistic'', ''momentum'']"

definition moderate_positive :: "string list" where
  "moderate_positive = [''steady'', ''stable'', ''recovering'', ''upbeat'', ''favorable'',
     ''encouraging'']"

definition strong_negative :: "string list" where
  "strong_negative = [''crisis'', ''collapse'', ''plunge'', ''devastating'', ''catastrophic'',
     ''severe'', ''alarming'']"

definition negative :: "string list" where
  "negative = [''decline'', ''fall'', ''loss'', ''weak'', ''pressure'', ''risk'', ''concern'',
     ''disappointing'', ''bearish'']"

definition moderate_negative :: "string list" where
  "moderate_negative = [''uncertain'', ''volatile'', ''challenge'', ''cautious'', ''mixed'',
     ''sluggish'']"

definition financial_context :: "(string \<times> rat) list" where
  "financial_context =
     [(''etf'', 0.1), (''fund'', 0.1), (''investment'', 0.1), (''portfolio'', 0.1),
      (''quarterly'', 0.15), (''earnings'', 0.15), (''revenue'', 0.15), (''production'', 0.15),
      (''market'', 0.1), (''sector'', 0.1), (''industry'', 0.1), (''economic'', 0.1)]"

text \<open>\<open>sum(1 for word in words if word in text_lower)\<close>\<close>

definition count_in :: "string list \<Rightarrow> string \<Rightarrow> nat" where
  "count_in ws text_lower = length (filter (\<lambda>word. str_in word text_lower) ws)"

text \<open>
  The regular expression \<open>(\d+(?:\.\d+)?)\s*%\<close> on ASCII text. \<open>match_pct s\<close> matches at
  the head of \<open>s\<close> and returns group 1 and the text after the match. Every part is taken
  greedily: a shorter run of digits or of blanks is followed by a digit or a blank, and a
  skipped fraction by a dot, none of which is \<open>%\<close>, so backtracking finds no other match.
\<close>

definition is_digit :: "char \<Rightarrow> bool" where
  "is_digit c = (let n = (of_char c :: nat) in 48 \<le> n \<and> n \<le> 57)"

definition is_space :: "char \<Rightarrow> bool" where
  "is_space c =
     (let n = (of_char c :: nat) in n = 32 \<or> (9 \<le> n \<and> n \<le> 13) \<or> (28 \<le> n \<and> n \<le> 31))"

definition match_pct :: "string \<Rightarrow> (string \<times> string) option" where
  "match_pct s =
     (let ds = takeWhile is_digit s; r1 = dropWhile is_digit s in
      if ds = [] then None
      else
        let (g, r2) =
              (case r1 of
                 c # r' \<Rightarrow>
                   if c = CHR ''.'' \<and> takeWhile is_digit r' \<noteq> []
                   then (ds @ [c] @ takeWhile is_digit r', dropWhile is_digit r')
                   else (ds, r1)
               | [] \<Rightarrow> (ds, r1))
        in case dropWhile is_space r2 of
             c # rest \<Rightarrow> if c = CHR ''%'' then Some (g, rest) else None
           | [] \<Rightarrow> None)"

text \<open>\<open>re.findall\<close>: the matches from left to right, the search going on after each match.\<close>

function findall_pct :: "string \<Rightarrow> string list" where
  "findall_pct [] = []"
| "findall_pct (c # cs) =
     (case match_pct (c # cs) of
        Some (g, rest) \<Rightarrow> g # findall_pct rest
      | None \<Rightarrow> findall_pct cs)"
  by pat_completeness auto
termination
proof (relation "measure length")
  show "wf (measure length)" by simp
next
  fix c :: char and cs :: string
  assume "match_pct (c # cs) = None"
  show "(cs, c # cs) \<in> measure length" by simp
next
  fix c :: char and cs x2 g rest
  assume m: "match_pct (c # cs) = Some x2" and x2: "(g, rest) = x2"
  define s where "s = c # cs"
  have d1: "length (dropWhile is_digit s) \<le> length s"
    by (rule length_dropWhile_le)
  obtain r2 where r2: "length r2 \<le> length s" and dr: "dropWhile is_space r2 = CHR ''%'' # rest"
  proof (cases "dropWhile is_digit s")
    case Nil
    with m x2 show ?thesis
      using that [of "[]"]
      by (auto simp: match_pct_def s_def [symmetric] Let_def split: if_splits list.splits)
  next
    case (Cons d r')
    have "length (dropWhile is_digit r') \<le> length r'"
      by (rule length_dropWhile_le)
    with d1 Cons have d2: "length (dropWhile is_digit r') \<le> length s"
      by simp
    from m x2 Cons d1 d2 show ?thesis
      using that [of "dropWhile is_digit r'"] that [of "d # r'"]
      by (auto simp: match_pct_def s_def [symmetric] Let_def split: if_splits list.splits)
  qed
  have "length (dropWhile is_space r2) \<le> length r2"
    by (rule length_dropWhile_le)
  with dr r2 have "length rest < length s"
    by simp
  then show "(rest, c # cs) \<in> measure length"
    by (simp add: s_def)
qed

text \<open>
  \<open>float(p)\<close> on a string that the expression matched (digits, then maybe a dot and
  digits): its exact decimal value.
\<close>

definition digits_value :: "string \<Rightarrow> nat" where
  "digits_value ds = foldl (\<lambda>acc c. 10 * acc + (of_char c - 48)) 0 ds"

definition float_of_decimal :: "string \<Rightarrow> rat" where
  "float_of_decimal p =
     (let ip = takeWhile is_digit p;
          fp = (case dropWhile is_digit p of c # fs \<Rightarrow> fs | [] \<Rightarrow> [])
      in of_nat (digits_value ip) + of_nat (digits_value fp) / 10 ^ length fp)"

text \<open>
  \<open>round(x, n)\<close>: to the nearest multiple of \<open>10\<^sup>-\<^sup>n\<close>, a tie to the even one. (On a
  double Python rounds the binary value; here the value is the exact decimal.)
\<close>

definition round_half_even :: "rat \<Rightarrow> int" where
  "round_half_even x =
     (let f = \<lfloor>x\<rfloor>; d = x - of_int f in
      if d < 1 / 2 then f else if d > 1 / 2 then f + 1 else if even f then f else f + 1)"

definition py_round :: "rat \<Rightarrow> nat \<Rightarrow> rat" where
  "py_round x n = of_int (round_half_even (x * 10 ^ n)) / 10 ^ n"

record sentiment_result =
  sentiment :: string
  confidence :: rat
  score_positive :: rat
  score_negative :: rat
  score_neutral :: rat
  analysis_method :: string

definition analyze_with_finbert_simulation :: "string \<Rightarrow> sentiment_result" where
  "analyze_with_finbert_simulation text =
     (let text_lower = lower text;
          strong_pos_count = count_in strong_positive text_lower;
          pos_count = count_in positive text_lower;
          mod_pos_count = count_in moderate_positive text_lower;
          strong_neg_count = count_in strong_negative text_lower;
          neg_count = count_in negative text_lower;
          mod_neg_count = count_in moderate_negative text_lower;
          context_boost =
            sum_list (map (\<lambda>(word, weight). 0.05 :: rat)
                        (filter (\<lambda>(word, weight). str_in word text_lower) financial_context));
          positive_score0 =
            (of_nat strong_pos_count * 0.3) + (of_nat pos_count * 0.2)
              + (of_nat mod_pos_count * 0.1) + context_boost;
          negative_score =
            (of_nat strong_neg_count * 0.3) + (of_nat neg_count * 0.2)
              + (of_nat mod_neg_count * 0.1);
          percentages = findall_pct text;
          positive_score =
            (if percentages \<noteq> []
                \<and> sum_list (map float_of_decimal percentages) / of_nat (length percentages) > 10
             then positive_score0 + 0.2 else positive_score0);
          (label, raw_confidence, pos_prob, neg_prob, neu_prob) =
            (if positive_score > negative_score then
               (let raw = 0.75 + min (positive_score * 0.1) 0.2
                in (''positive'', raw, raw, (1 - raw) * 0.3, (1 - raw) * 0.7))
             else if negative_score > positive_score then
               (let raw = 0.75 + min (negative_score * 0.1) 0.2
                in (''negative'', raw, (1 - raw) * 0.3, raw, (1 - raw) * 0.7))
             else
               (let raw = 0.65 + context_boost
                in (''neutral'', raw, (1 - raw) * 0.5, (1 - raw) * 0.5, raw)));
          conf = min (max raw_confidence 0.6) 0.95
      in \<lparr>sentiment = label,
          confidence = py_round conf 4,
          score_positive = py_round pos_prob 4,
          score_negative = py_round neg_prob 4,
          score_neutral = py_round neu_prob 4,
          analysis_method = ''finbert_local''\<rparr>)"

text \<open>
  The table of \<open>get_portfolio_sentiment\<close> and its loop over it. The scorer always
  returns a non-empty dictionary, so the rule-based fallback is never taken; the
  portfolio summary built from the list is not part of this model.
\<close>

definition portfolio_stocks :: "(string \<times> string) list" where
  "portfolio_stocks =
     [(''GOLD1'', ''Gold ETF experiences strong institutional inflows as central bank policies drive safe haven demand amid global economic uncertainty and inflation hedging strategies''),
      (''NATIONALUM'', ''National Aluminium Company reports exceptional quarterly performance with 15% YoY production growth, driven by robust automotive demand and infrastructure spending surge''),
      (''OIL'', ''Oil and Natural Gas Corporation announces significant offshore discovery with estimated reserves exceeding expectations, projecting 20% production increase over next 24 months''),
      (''MOTILAL'', ''Motilal Oswal Large and Midcap Fund demonstrates superior alpha generation through disciplined stock selection, outperforming benchmark by 320 basis points year-to-date'')]"

definition stock_sentiments :: "(string \<times> string \<times> sentiment_result) list" where
  "stock_sentiments =
     map (\<lambda>(symbol, news). (symbol, news, analyze_with_finbert_simulation news)) portfolio_stocks"

section \<open>Risk heuristics\<close>

text \<open>An entry of \<open>portfolio_data\<close> in \<open>get_portfolio_risks\<close>.\<close>

record position =
  p_instrument :: string
  p_current_value :: rat
  p_asset_class :: string
  p_sector :: string

text \<open>
  A Python dict from strings to numbers, as the list of its items in insertion order:
  \<open>d.get(k, dflt)\<close> and \<open>d[k] = v\<close> (an old key keeps its place, a new one goes last).
\<close>

definition dict_get :: "(string \<times> rat) list \<Rightarrow> string \<Rightarrow> rat \<Rightarrow> rat" where
  "dict_get d k dflt = (case map_of d k of Some v \<Rightarrow> v | None \<Rightarrow> dflt)"

fun dict_set :: "(string \<times> rat) list \<Rightarrow> string \<Rightarrow> rat \<Rightarrow> (string \<times> rat) list" where
  "dict_set [] k v = [(k, v)]"
| "dict_set ((k', v') # d) k v = (if k' = k then (k, v) # d else (k', v') # dict_set d k v)"

text \<open>The two loops that add the current values up by asset class and by sector.\<close>

fun group_values ::
  "(position \<Rightarrow> string) \<Rightarrow> position list \<Rightarrow> (string \<times> rat) list \<Rightarrow> (string \<times> rat) list" where
  "group_values key [] d = d"
| "group_values key (h # hs) d =
     group_values key hs (dict_set d (key h) (dict_get d (key h) 0 + p_current_value h))"

text \<open>
  \<open>max(d.values())\<close> and \<open>max(d.keys(), key=lambda k: d[k])\<close> on a non-empty dict: the
  first item among those of greatest value.
\<close>

fun max_item :: "string \<times> rat \<Rightarrow> (string \<times> rat) list \<Rightarrow> string \<times> rat" where
  "max_item best [] = best"
| "max_item best (kv # rest) = max_item (if snd kv > snd best then kv else best) rest"

text \<open>\<open>f'{x:.1f}'\<close>: one decimal, a tie to the even digit.\<close>

fun str_of_nat :: "nat \<Rightarrow> string" where
  "str_of_nat n =
     (if n < 10 then [char_of (48 + n)]
      else str_of_nat (n div 10) @ [char_of (48 + n mod 10)])"

definition format_1f :: "rat \<Rightarrow> string" where
  "format_1f x =
     (let t = nat (round_half_even (\<bar>x\<bar> * 10))
      in (if x < 0 then [CHR ''-''] else []) @ str_of_nat (t div 10) @ [CHR ''.'']
           @ str_of_nat (t mod 10))"

text \<open>An entry of \<open>risks\<close>; the \<open>icon\<close>, a fixed pictograph for each kind, is left out.\<close>

record risk =
  risk_type :: string
  level :: string
  severity :: string
  description :: string
  recommendation :: string

record risk_report =
  report_timestamp :: string
  total_portfolio_value :: rat
  asset_class_allocation :: "(string \<times> rat) list"
  sector_allocation :: "(string \<times> rat) list"
  total_risks :: nat
  high_risk_count :: nat
  overall_risk_score :: string
  risks :: "risk list"

datatype py_error = ZeroDivisionError

text \<open>
  \<open>value / total_value * 100\<close> for every item; the division raises when the total is
  zero and there is an item to divide.
\<close>

definition percentages_of :: "(string \<times> rat) list \<Rightarrow> rat \<Rightarrow> py_error + (string \<times> rat) list" where
  "percentages_of d total_value =
     (if d \<noteq> [] \<and> total_value = 0 then Inl ZeroDivisionError
      else Inr (map (\<lambda>(k, v). (k, v / total_value * 100)) d))"

text \<open>The three appends to \<open>risks\<close>.\<close>

definition asset_risk :: "rat \<Rightarrow> risk" where
  "asset_risk equity_pct =
     (if equity_pct > 75 then
        \<lparr>risk_type = ''Asset Concentration'', level = ''High'', severity = ''warning'',
         description = format_1f equity_pct @ ''% equity exposure exceeds recommended 75% limit'',
         recommendation = ''Consider diversifying into bonds, commodities, or REITs to reduce equity concentration''\<rparr>
      else
        \<lparr>risk_type = ''Asset Allocation'', level = ''Good'', severity = ''info'',
         description = ''Equity exposure at '' @ format_1f equity_pct
           @ ''% is within acceptable range'',
         recommendation = ''Current asset allocation is well balanced''\<rparr>)"

definition sector_risk :: "string \<Rightarrow> rat \<Rightarrow> risk" where
  "sector_risk max_sector max_sector_pct =
     (if max_sector_pct > 50 then
        \<lparr>risk_type = ''Sector Concentration'', level = ''High'', severity = ''warning'',
         description = format_1f max_sector_pct @ ''% concentrated in '' @ max_sector,
         recommendation = ''Diversify across multiple sectors to reduce concentration risk''\<rparr>
      else
        \<lparr>risk_type = ''Sector Diversification'', level = ''Good'', severity = ''success'',
         description = ''Largest sector exposure: '' @ max_sector @ '' (''
           @ format_1f max_sector_pct @ ''%)'',
         recommendation = ''Sector diversification is adequate''\<rparr>)"

definition currency_risk :: risk where
  "currency_risk =
     \<lparr>risk_type = ''Currency Risk'', level = ''Low'', severity = ''info'',
      description = ''All holdings in domestic currency (INR)'',
      recommendation = ''Consider international exposure for currency diversification''\<rparr>"

text \<open>
  The body of \<open>get_portfolio_risks\<close> after its table, as a function of the table;
  \<open>now\<close> is \<open>time.strftime('%Y-%m-%dT%H:%M:%S')\<close>.
\<close>

definition portfolio_risks :: "string \<Rightarrow> position list \<Rightarrow> py_error + risk_report" where
  "portfolio_risks now data =
     (let total_value = sum_list (map p_current_value data);
          asset_class_values = group_values p_asset_class data [];
          sector_values = group_values p_sector data []
      in case percentages_of asset_class_values total_value of
           Inl e \<Rightarrow> Inl e
         | Inr asset_class_percentages \<Rightarrow>
             (case percentages_of sector_values total_value of
                Inl e \<Rightarrow> Inl e
              | Inr sector_percentages \<Rightarrow>
                  (let equity_pct = dict_get asset_class_percentages ''Equity'' 0;
                       (max_sector, max_sector_pct) =
                         (case sector_percentages of
                            [] \<Rightarrow> (''Unknown'', 0)
                          | kv # rest \<Rightarrow> max_item kv rest);
                       rs = [asset_risk equity_pct, sector_risk max_sector max_sector_pct,
                             currency_risk]
                   in Inr \<lparr>report_timestamp = now,
                            total_portfolio_value = total_value,
                            asset_class_allocation = asset_class_percentages,
                            sector_allocation = sector_percentages,
                            total_risks = length (filter (\<lambda>r. severity r = ''warning'') rs),
                            high_risk_count = length (filter (\<lambda>r. level r = ''High'') rs),
                            overall_risk_score =
                              (if list_ex (\<lambda>r. level r = ''High'') rs
                               then ''Moderate'' else ''Low''),
                            risks = rs\<rparr>)))"

definition portfolio_data :: "position list" where
  "portfolio_data =
     [\<lparr>p_instrument = ''GOLD1'', p_current_value = 60842.70,
        p_asset_class = ''Commodity'', p_sector = ''Precious Metals''\<rparr>,
      \<lparr>p_instrument = ''NATIONALUM'', p_current_value = 49938.35,
        p_asset_class = ''Equity'', p_sector = ''Mining''\<rparr>,
      \<lparr>p_instrument = ''OIL'', p_current_value = 61925.13,
        p_asset_class = ''Equity'', p_sector = ''Oil''\<rparr>,
      \<lparr>p_instrument = ''MOTILAL'', p_current_value = 61464.05,
        p_asset_class = ''Equity'', p_sector = ''Large and Mid Cap Fund''\<rparr>]"

definition get_portfolio_risks :: "string \<Rightarrow> py_error + risk_report" where
  "get_portfolio_risks now = portfolio_risks now portfolio_data"


section \<open>Hedge analysis\<close>

text \<open>
  What \<open>get_hedge_analysis\<close> takes from the interpreter and the \<open>datetime\<close> module.
  A \<open>datetime\<close> is the number of its day and the microsecond within the day, so that
  \<open>base_date - timedelta(days=n)\<close> moves the day number. Python salts the hash of a
  string with a key drawn when the interpreter starts (unless \<open>PYTHONHASHSEED\<close> fixes
  it): \<open>py_hash\<close> is the hash function of the running process.
\<close>

record datetime =
  day_number :: int
  microsecond_of_day :: nat

record interpreter =
  py_hash :: "string \<Rightarrow> int"
  str_datetime :: "datetime \<Rightarrow> string"
  strftime :: "datetime \<Rightarrow> string \<Rightarrow> string"

definition minus_days :: "datetime \<Rightarrow> int \<Rightarrow> datetime" where
  "minus_days d n = d\<lparr>day_number := day_number d - n\<rparr>"

record historical_entry =
  month :: string
  date :: string
  normal_value :: rat
  shock_5_value :: rat
  shock_10_value :: rat

text \<open>One pass of the loop \<open>for i in range(12, 0, -1)\<close>.\<close>

definition historical_point :: "interpreter \<Rightarrow> rat \<Rightarrow> datetime \<Rightarrow> nat \<Rightarrow> historical_entry" where
  "historical_point py cur_value base_date i =
     (let month_date = minus_days base_date (int i * 30);
          growth_factor = 1 + (12 - of_nat i) * 0.02;
          historical_value0 = cur_value / growth_factor;
          volatility = of_int (py_hash py (str_datetime py month_date) mod 100 - 50) / 1000;
          historical_value = historical_value0 * (1 + volatility)
      in \<lparr>month = strftime py month_date ''%b %Y'',
          date = strftime py month_date ''%Y-%m-%d'',
          normal_value = py_round historical_value 2,
          shock_5_value = py_round (historical_value * 0.95) 2,
          shock_10_value = py_round (historical_value * 0.90) 2\<rparr>)"

definition historical_series :: "interpreter \<Rightarrow> rat \<Rightarrow> datetime \<Rightarrow> historical_entry list" where
  "historical_series py cur_value base_date =
     map (historical_point py cur_value base_date) (rev [1..<13])"

definition char_upper :: "char \<Rightarrow> char" where
  "char_upper c =
     (let n = (of_char c :: nat) in if 97 \<le> n \<and> n \<le> 122 then char_of (n - 32) else c)"

definition upper :: "string \<Rightarrow> string" where
  "upper s = map char_upper s"

text \<open>The recommendations drawn from the lines of the P&L data, and the default list.\<close>

definition sector_recommendations :: "pl_line list \<Rightarrow> string list" where
  "sector_recommendations lines =
     concat (map (\<lambda>holding.
        (let instr = upper (pl_instrument holding) in
         if str_in ''GOLD'' instr
         then [''Gold positions act as natural hedge - maintain allocation'']
         else if str_in ''OIL'' instr \<or> str_in ''ONGC'' instr
         then [''Energy sector hedging via commodity futures'']
         else [])) lines)"

definition hedge_recommendations_of :: "pl_data option \<Rightarrow> string list" where
  "hedge_recommendations_of current_pl_data =
     (let recs =
            (case current_pl_data of
               None \<Rightarrow> []
             | Some d \<Rightarrow>
                 if details d = [] then []
                 else
                   (let equity_exposure =
                          length (filter (\<lambda>holding. str_in ''equity'' (lower (pl_instrument holding)))
                                    (details d))
                    in (if equity_exposure > 0
                        then [''Consider index puts (NIFTY) to hedge equity exposure'',
                              ''VIX calls can protect against market volatility'']
                        else [])
                       @ sector_recommendations (details d)))
      in if recs = [] then
           [''Consider NIFTY put options for downside protection'',
            ''Increase allocation to defensive sectors like FMCG'',
            ''Maintain cash reserves for market opportunities'',
            ''Use VIX futures to hedge against volatility'']
         else recs)"

text \<open>
  The response of \<open>get_hedge_analysis\<close> (its display strings left out).
  \<open>current_pl_data\<close> is what \<open>calculate_portfolio_pl\<close> returned, \<open>None\<close> when the
  calculator had no holdings to work on; \<open>base_date\<close> is \<open>datetime.now()\<close>.
\<close>

record hedge_analysis =
  current_portfolio_value :: rat
  shock_5 :: rat
  shock_5_impact :: rat
  shock_10 :: rat
  shock_10_impact :: rat
  historical_data :: "historical_entry list"
  hedge_recommendations :: "string list"

definition get_hedge_analysis :: "interpreter \<Rightarrow> pl_data option \<Rightarrow> datetime \<Rightarrow> hedge_analysis" where
  "get_hedge_analysis py current_pl_data base_date =
     (let cur_value =
            (case current_pl_data of
               None \<Rightarrow> 234170.23
             | Some d \<Rightarrow> if total_current_value d \<le> 0 then 234170.23 else total_current_value d);
          shock_5_v = cur_value * 0.95;
          shock_10_v = cur_value * 0.90;
          shock_5_imp = shock_5_v - cur_value;
          shock_10_imp = shock_10_v - cur_value
      in \<lparr>current_portfolio_value = py_round cur_value 2,
          shock_5 = py_round shock_5_v 2,
          shock_5_impact = py_round shock_5_imp 2,
          shock_10 = py_round shock_10_v 2,
          shock_10_impact = py_round shock_10_imp 2,
          historical_data = historical_series py cur_value base_date,
          hedge_recommendations = hedge_recommendations_of current_pl_data\<rparr>)"

section \<open>Double arithmetic\<close>

text \<open>
  The sections above compute with exact rationals. That is the code's arithmetic
  wherever one operation decides the matter; where a result passes through several
  operations the code rounds after each, and the functions concerned are modelled again
  below with that rounding.

  A Python \<open>float\<close> is an IEEE-754 double: every finite double is a rational, and each
  operation returns the double nearest to the exact result, a tie going to the even
  significand. \<open>fl x\<close> is that double: with \<open>2\<^sup>e \<le> |x| < 2\<^sup>e\<^sup>+\<^sup>1\<close> it rounds \<open>x\<close>
  to a multiple of \<open>2\<^sup>e\<^sup>-\<^sup>5\<^sup>2\<close>. Overflow to infinity (beyond about \<open>1.8e308\<close>) and
  the coarser grid of subnormal numbers (below about \<open>2.2e-308\<close>) are left out.
\<close>

definition ilog2 :: "rat \<Rightarrow> int" where
  "ilog2 x =
     (let (p, q) = quotient_of x;
          e0 = bitlen p - bitlen q
      in if x < 2 powi e0 then e0 - 1 else e0)"

definition fl :: "rat \<Rightarrow> rat" where
  "fl x =
     (if x = 0 then 0
      else let q = 2 powi (ilog2 \<bar>x\<bar> - 52) in of_int (round_half_even (x / q)) * q)"

definition fadd :: "rat \<Rightarrow> rat \<Rightarrow> rat" where
  "fadd a b = fl (a + b)"

definition fsub :: "rat \<Rightarrow> rat \<Rightarrow> rat" where
  "fsub a b = fl (a - b)"

definition fmul :: "rat \<Rightarrow> rat \<Rightarrow> rat" where
  "fmul a b = fl (a * b)"

definition fdiv :: "rat \<Rightarrow> rat \<Rightarrow> rat" where
  "fdiv a b = fl (a / b)"

text \<open>
  The builtin \<open>sum\<close>: it starts at the integer 0 and adds from the left. (From
  version 3.12 on CPython carries a correction term along; on one or two floats the
  result is the same.)
\<close>

definition py_sum :: "rat list \<Rightarrow> rat" where
  "py_sum xs = foldl fadd 0 xs"

text \<open>
  \<open>round(x, n)\<close> on a double: the exact value of \<open>x\<close> is rounded to \<open>n\<close> decimals, and
  the double nearest to that decimal is returned.
\<close>

definition py_round_f64 :: "rat \<Rightarrow> nat \<Rightarrow> rat" where
  "py_round_f64 x n = fl (py_round x n)"

subsection \<open>The aggregator in double arithmetic\<close>

text \<open>
  The loop of \<open>calculate_portfolio_pl\<close> again, each \<open>+\<close>, \<open>-\<close>, \<open>*\<close> and \<open>/\<close> rounded as
  the code rounds it. The amounts of a holding are doubles.
\<close>

fun pl_loop_f64 :: "world \<Rightarrow> holding list \<Rightarrow> rat \<times> rat \<times> pl_line list \<Rightarrow> rat \<times> rat \<times> pl_line list" where
  "pl_loop_f64 w [] acc = acc"
| "pl_loop_f64 w (h # hs) (tot_invested, tot_current_value, pl_details) =
     (let current_price = resolve_price w h in
      case live_price current_price of
        Some price \<Rightarrow>
          (let cur_value = fmul (quantity h) price;
               amount = fsub cur_value (invested h);
               percentage = (if invested h > 0 then fmul (fdiv amount (invested h)) 100 else 0)
           in pl_loop_f64 w hs
                (fadd tot_invested (invested h),
                 fadd tot_current_value cur_value,
                 pl_details @
                   [\<lparr>pl_instrument = instrument h, pl_invested = invested h,
                     pl_current_value = cur_value, pl_amount = amount,
                     pl_percentage = percentage, pl_current_price = current_price\<rparr>]))
      | None \<Rightarrow>
          (let cur_value = current_value h
           in pl_loop_f64 w hs
                (fadd tot_invested (invested h),
                 fadd tot_current_value cur_value,
                 pl_details @
                   [\<lparr>pl_instrument = instrument h, pl_invested = invested h,
                     pl_current_value = cur_value, pl_amount = fsub cur_value (invested h),
                     pl_percentage =
                       (if invested h > 0
                        then fmul (fdiv (fsub cur_value (invested h)) (invested h)) 100 else 0),
                     pl_current_price = JStr ''API_FAILED''\<rparr>])))"

definition calculate_portfolio_pl_f64 :: "world \<Rightarrow> string \<Rightarrow> holding list \<Rightarrow> pl_data" where
  "calculate_portfolio_pl_f64 w now holdings =
     (case pl_loop_f64 w holdings (0, 0, []) of
        (tot_invested, tot_current_value, pl_details) \<Rightarrow>
          (let tot_pl = fsub tot_current_value tot_invested;
               tot_pl_percentage =
                 (if tot_invested > 0 then fmul (fdiv tot_pl tot_invested) 100 else 0)
           in \<lparr>total_invested = tot_invested,
               total_current_value = tot_current_value,
               total_pl = tot_pl,
               total_pl_percentage = tot_pl_percentage,
               details = pl_details,
               timestamp = now\<rparr>))"

subsection \<open>The sentiment scorer in double arithmetic\<close>

text \<open>
  \<open>analyze_with_finbert_simulation\<close> again. A decimal literal is the double nearest to
  it; a count is an integer, which Python converts without error before it multiplies;
  \<open>float(p)\<close> is the double nearest to the decimal it reads.
\<close>

definition analyze_with_finbert_simulation_f64 :: "string \<Rightarrow> sentiment_result" where
  "analyze_with_finbert_simulation_f64 text =
     (let text_lower = lower text;
          strong_pos_count = count_in strong_positive text_lower;
          pos_count = count_in positive text_lower;
          mod_pos_count = count_in moderate_positive text_lower;
          strong_neg_count = count_in strong_negative text_lower;
          neg_count = count_in negative text_lower;
          mod_neg_count = count_in moderate_negative text_lower;
          context_boost =
            py_sum (map (\<lambda>(word, weight). fl 0.05)
                      (filter (\<lambda>(word, weight). str_in word text_lower) financial_context));
          positive_score0 =
            fadd (fadd (fadd (fmul (of_nat strong_pos_count) (fl 0.3))
                             (fmul (of_nat pos_count) (fl 0.2)))
                       (fmul (of_nat mod_pos_count) (fl 0.1)))
                 context_boost;
          negative_score =
            fadd (fadd (fmul (of_nat strong_neg_count) (fl 0.3))
                       (fmul (of_nat neg_count) (fl 0.2)))
                 (fmul (of_nat mod_neg_count) (fl 0.1));
          percentages = findall_pct text;
          positive_score =
            (if percentages \<noteq> []
                \<and> fdiv (py_sum (map (\<lambda>p. fl (float_of_decimal p)) percentages))
                        (of_nat (length percentages)) > 10
             then fadd positive_score0 (fl 0.2) else positive_score0);
          (label, raw_confidence, pos_prob, neg_prob, neu_prob) =
            (if positive_score > negative_score then
               (let raw = fadd (fl 0.75) (min (fmul positive_score (fl 0.1)) (fl 0.2))
                in (''positive'', raw, raw, fmul (fsub 1 raw) (fl 0.3), fmul (fsub 1 raw) (fl 0.7)))
             else if negative_score > positive_score then
               (let raw = fadd (fl 0.75) (min (fmul negative_score (fl 0.1)) (fl 0.2))
                in (''negative'', raw, fmul (fsub 1 raw) (fl 0.3), raw, fmul (fsub 1 raw) (fl 0.7)))
             else
               (let raw = fadd (fl 0.65) context_boost
                in (''neutral'', raw, fmul (fsub 1 raw) (fl 0.5), fmul (fsub 1 raw) (fl 0.5), raw)));
          conf = min (max raw_confidence (fl 0.6)) (fl 0.95)
      in \<lparr>sentiment = label,
          confidence = py_round_f64 conf 4,
          score_positive = py_round_f64 pos_prob 4,
          score_negative = py_round_f64 neg_prob 4,
          score_neutral = py_round_f64 neu_prob 4,
          analysis_method = ''finbert_local''\<rparr>)"

subsection \<open>The risk assessment in double arithmetic\<close>

fun group_values_f64 ::
  "(position \<Rightarrow> string) \<Rightarrow> position list \<Rightarrow> (string \<times> rat) list \<Rightarrow> (string \<times> rat) list" where
  "group_values_f64 key [] d = d"
| "group_values_f64 key (h # hs) d =
     group_values_f64 key hs (dict_set d (key h) (fadd (dict_get d (key h) 0) (p_current_value h)))"

definition percentages_of_f64 :: "(string \<times> rat) list \<Rightarrow> rat \<Rightarrow> py_error + (string \<times> rat) list" where
  "percentages_of_f64 d total_value =
     (if d \<noteq> [] \<and> total_value = 0 then Inl ZeroDivisionError
      else Inr (map (\<lambda>(k, v). (k, fmul (fdiv v total_value) 100)) d))"

text \<open>The body of \<open>get_portfolio_risks\<close> again, as a function of its table.\<close>

definition portfolio_risks_f64 :: "string \<Rightarrow> position list \<Rightarrow> py_error + risk_report" where
  "portfolio_risks_f64 now data =
     (let total_value = py_sum (map p_current_value data);
          asset_class_values = group_values_f64 p_asset_class data [];
          sector_values = group_values_f64 p_sector data []
      in case percentages_of_f64 asset_class_values total_value of
           Inl e \<Rightarrow> Inl e
         | Inr asset_class_percentages \<Rightarrow>
             (case percentages_of_f64 sector_values total_value of
                Inl e \<Rightarrow> Inl e
              | Inr sector_percentages \<Rightarrow>
                  (let equity_pct = dict_get asset_class_percentages ''Equity'' 0;
                       (max_sector, max_sector_pct) =
                         (case sector_percentages of
                            [] \<Rightarrow> (''Unknown'', 0)
                          | kv # rest \<Rightarrow> max_item kv rest);
                       rs = [asset_risk equity_pct, sector_risk max_sector max_sector_pct,
                             currency_risk]
                   in Inr \<lparr>report_timestamp = now,
                            total_portfolio_value = total_value,
                            asset_class_allocation = asset_class_percentages,
                            sector_allocation = sector_percentages,
                            total_risks = length (filter (\<lambda>r. severity r = ''warning'') rs),
                            high_risk_count = length (filter (\<lambda>r. level r = ''High'') rs),
                            overall_risk_score =
                              (if list_ex (\<lambda>r. level r = ''High'') rs
                               then ''Moderate'' else ''Low''),
                            risks = rs\<rparr>)))"

text \<open>
  The equity percentage as this code computes it: the sum of the equity values, divided
  by the total, times 100, each step rounded. \<open>equity_pct_f64_eq\<close> shows that the
  \<open>equity_pct\<close> read from the dict is this number.
\<close>

definition equity_pct_f64 :: "position list \<Rightarrow> rat" where
  "equity_pct_f64 data =
     fmul (fdiv (py_sum (map p_current_value (filter (\<lambda>h. p_asset_class h = ''Equity'') data)))
                (py_sum (map p_current_value data)))
          100"

section \<open>Properties of the aggregator\<close>

text \<open>
  The line that one pass of the loop body appends for holding \<open>h\<close> when the resolver
  answered \<open>q\<close>: a device of the proofs, shown equal to what the loop does in
  \<open>pl_loop_unfold\<close>.
\<close>

definition line_for :: "holding \<Rightarrow> json \<Rightarrow> pl_line" where
  "line_for h q =
     (case live_price q of
        Some price \<Rightarrow>
          \<lparr>pl_instrument = instrument h, pl_invested = invested h,
           pl_current_value = quantity h * price,
           pl_amount = quantity h * price - invested h,
           pl_percentage =
             (if invested h > 0
              then ((quantity h * price - invested h) / invested h) * 100 else 0),
           pl_current_price = q\<rparr>
      | None \<Rightarrow>
          \<lparr>pl_instrument = instrument h, pl_invested = invested h,
           pl_current_value = current_value h,
           pl_amount = current_value h - invested h,
           pl_percentage =
             (if invested h > 0
              then ((current_value h - invested h) / invested h) * 100 else 0),
           pl_current_price = JStr ''API_FAILED''\<rparr>)"

lemma pl_loop_unfold:
  "pl_loop w hs (ti, tcv, ds) =
     (ti + sum_list (map invested hs),
      tcv + sum_list (map (\<lambda>h. pl_current_value (line_for h (resolve_price w h))) hs),
      ds @ map (\<lambda>h. line_for h (resolve_price w h)) hs)"
proof (induction hs arbitrary: ti tcv ds)
  case Nil
  show ?case by simp
next
  case (Cons h hs)
  show ?case
  proof (cases "live_price (resolve_price w h)")
    case None
    then show ?thesis
      by (simp add: Cons.IH line_for_def Let_def add.assoc)
  next
    case (Some price)
    then show ?thesis
      by (simp add: Cons.IH line_for_def Let_def add.assoc)
  qed
qed

lemma details_eq:
  "details (calculate_portfolio_pl w now hs) = map (\<lambda>h. line_for h (resolve_price w h)) hs"
  by (simp add: calculate_portfolio_pl_def pl_loop_unfold Let_def)

lemma total_invested_eq:
  "total_invested (calculate_portfolio_pl w now hs) = sum_list (map invested hs)"
  by (simp add: calculate_portfolio_pl_def pl_loop_unfold Let_def)

lemma total_current_value_eq:
  "total_current_value (calculate_portfolio_pl w now hs) =
     sum_list (map (\<lambda>h. pl_current_value (line_for h (resolve_price w h))) hs)"
  by (simp add: calculate_portfolio_pl_def pl_loop_unfold Let_def)

lemma total_pl_eq:
  "total_pl (calculate_portfolio_pl w now hs) =
     total_current_value (calculate_portfolio_pl w now hs)
       - total_invested (calculate_portfolio_pl w now hs)"
  by (simp add: calculate_portfolio_pl_def Let_def split: prod.splits)

lemma total_pl_percentage_eq:
  "total_pl_percentage (calculate_portfolio_pl w now hs) =
     (if total_invested (calculate_portfolio_pl w now hs) > 0
      then (total_pl (calculate_portfolio_pl w now hs)
              / total_invested (calculate_portfolio_pl w now hs)) * 100
      else 0)"
  by (simp add: calculate_portfolio_pl_def Let_def split: prod.splits)




text \<open>
  C2. When the resolver answers a holding with a number \<open>p > 0\<close>, the line of that
  holding has \<open>current_value = quantity * p\<close>, \<open>pl_amount = current_value - invested\<close>,
  and records the live price \<open>p\<close>, not the marker \<open>API_FAILED\<close>.
\<close>

theorem live_quote_line:
  assumes "i < length hs" and "resolve_price w (hs ! i) = JNum p" and "p > 0"
  shows "pl_current_value (details (calculate_portfolio_pl w now hs) ! i) = quantity (hs ! i) * p
       \<and> pl_amount (details (calculate_portfolio_pl w now hs) ! i)
           = pl_current_value (details (calculate_portfolio_pl w now hs) ! i) - invested (hs ! i)
       \<and> pl_current_price (details (calculate_portfolio_pl w now hs) ! i) = JNum p
       \<and> pl_current_price (details (calculate_portfolio_pl w now hs) ! i) \<noteq> JStr ''API_FAILED''
       \<and> length (details (calculate_portfolio_pl w now hs)) = length hs"
  using assms by (simp add: details_eq line_for_def)


theorem live_quote_line_witness:
  "(let h = \<lparr>instrument = ''OIL'', quantity = 10, avg_cost = 100, invested = 1000,
              current_value = 1100, asset_class = ''Equity'', sector = ''Oil''\<rparr>;
        w = \<lparr>upstox_ltp = (\<lambda>k. Some \<lparr>status_code = 200,
                 body = Some (JObj [(''status'', JStr ''success''),
                   (''data'', JObj [(''NSE_EQ:OIL'', JObj [(''last_price'', JNum 120)])])])\<rparr>),
              mf_search = (\<lambda>q. None), mf_scheme = (\<lambda>c. None), float_of_str = (\<lambda>s. None)\<rparr>;
        ln = details (calculate_portfolio_pl w ''2025-01-01T00:00:00'' [h]) ! 0
    in (0::nat) < length [h] \<and> resolve_price w ([h] ! 0) = JNum 120 \<and> (0::rat) < 120
       \<and> pl_current_value ln = 1200 \<and> pl_amount ln = 200 \<and> pl_current_price ln = JNum 120)"
proof -
  define h where "h = \<lparr>instrument = ''OIL'', quantity = 10, avg_cost = 100, invested = 1000,
              current_value = 1100, asset_class = ''Equity'', sector = ''Oil''\<rparr>"
  define w where "w = \<lparr>upstox_ltp = (\<lambda>k. Some \<lparr>status_code = 200,
                 body = Some (JObj [(''status'', JStr ''success''),
                   (''data'', JObj [(''NSE_EQ:OIL'', JObj [(''last_price'', JNum 120)])])])\<rparr>),
              mf_search = (\<lambda>q. None), mf_scheme = (\<lambda>c. None), float_of_str = (\<lambda>s. None)\<rparr>"
  have r: "resolve_price w ([h] ! 0) = JNum 120"
    by (simp add: resolve_price_def get_upstox_stock_price_def h_def w_def)
  have p: "(0::rat) < 120"
    by simp
  have "pl_current_value (details (calculate_portfolio_pl w ''2025-01-01T00:00:00'' [h]) ! 0)
          = quantity ([h] ! 0) * 120
      \<and> pl_amount (details (calculate_portfolio_pl w ''2025-01-01T00:00:00'' [h]) ! 0)
          = pl_current_value (details (calculate_portfolio_pl w ''2025-01-01T00:00:00'' [h]) ! 0)
              - invested ([h] ! 0)
      \<and> pl_current_price (details (calculate_portfolio_pl w ''2025-01-01T00:00:00'' [h]) ! 0)
          = JNum 120"
    using live_quote_line [of 0 "[h]" w 120 "''2025-01-01T00:00:00''", OF _ r p] by simp
  moreover have "quantity ([h] ! 0) = 10" "invested ([h] ! 0) = 1000"
    by (simp_all add: h_def)
  ultimately show ?thesis
    using r unfolding Let_def h_def [symmetric] w_def [symmetric] by simp
qed

text \<open>
  C3. When the resolver answers a holding with \<open>"TOKEN_EXPIRED"\<close>, with \<open>None\<close> or
  with a number that is not positive, the line of that holding takes the stale
  \<open>current_value\<close> of the holding, computes P&L and percentage against it, and carries
  the marker \<open>API_FAILED\<close> as its price. (The witness is the scenario of the spec:
  quantity 10, invested 1000, current value 1100, no quote, P&L 100.)
\<close>

theorem fallback_line:
  assumes "i < length hs"
    and "resolve_price w (hs ! i) = JStr ''TOKEN_EXPIRED'' \<or> resolve_price w (hs ! i) = JNull
         \<or> (\<exists>p. resolve_price w (hs ! i) = JNum p \<and> p \<le> 0)"
  shows "pl_current_value (details (calculate_portfolio_pl w now hs) ! i) = current_value (hs ! i)
       \<and> pl_amount (details (calculate_portfolio_pl w now hs) ! i)
           = current_value (hs ! i) - invested (hs ! i)
       \<and> pl_percentage (details (calculate_portfolio_pl w now hs) ! i)
           = (if invested (hs ! i) > 0
              then ((current_value (hs ! i) - invested (hs ! i)) / invested (hs ! i)) * 100
              else 0)
       \<and> pl_current_price (details (calculate_portfolio_pl w now hs) ! i) = JStr ''API_FAILED''"
proof -
  from assms(2) have "live_price (resolve_price w (hs ! i)) = None"
    by auto
  with assms(1) show ?thesis
    by (simp add: details_eq line_for_def)
qed

theorem fallback_line_witness:
  "(let h = \<lparr>instrument = ''OIL'', quantity = 10, avg_cost = 100, invested = 1000,
              current_value = 1100, asset_class = ''Equity'', sector = ''Oil''\<rparr>;
        w = \<lparr>upstox_ltp = (\<lambda>k. None), mf_search = (\<lambda>q. None), mf_scheme = (\<lambda>c. None),
              float_of_str = (\<lambda>s. None)\<rparr>;
        ln = details (calculate_portfolio_pl w ''2025-01-01T00:00:00'' [h]) ! 0
    in (0::nat) < length [h] \<and> resolve_price w ([h] ! 0) = JNull
       \<and> pl_current_value ln = 1100 \<and> pl_amount ln = 100 \<and> pl_percentage ln = 10
       \<and> pl_current_price ln = JStr ''API_FAILED'')"
proof -
  define h where "h = \<lparr>instrument = ''OIL'', quantity = 10, avg_cost = 100, invested = 1000,
              current_value = 1100, asset_class = ''Equity'', sector = ''Oil''\<rparr>"
  define w where "w = \<lparr>upstox_ltp = (\<lambda>k. None), mf_search = (\<lambda>q. None),
              mf_scheme = (\<lambda>c. None), float_of_str = (\<lambda>s. None)\<rparr>"
  have r: "resolve_price w ([h] ! 0) = JNull"
    by (simp add: resolve_price_def get_upstox_stock_price_def h_def w_def)
  have f: "current_value ([h] ! 0) = 1100" "invested ([h] ! 0) = 1000"
    by (simp_all add: h_def)
  show ?thesis
    using fallback_line [of 0 "[h]" w "''2025-01-01T00:00:00''"] r f
    unfolding Let_def h_def [symmetric] w_def [symmetric] by simp
qed

text \<open>
  C4. A holding with \<open>invested = 0\<close> gets \<open>pl_percentage = 0\<close> on its line, live or
  fallback, and the portfolio's \<open>total_pl_percentage\<close> is 0 whenever its
  \<open>total_invested\<close> is 0: the division is guarded in each place.
\<close>

theorem zero_invested_percentage:
  "(i < length hs \<and> invested (hs ! i) = 0
      \<longrightarrow> pl_percentage (details (calculate_portfolio_pl w now hs) ! i) = 0)
   \<and> (total_invested (calculate_portfolio_pl w now hs) = 0
      \<longrightarrow> total_pl_percentage (calculate_portfolio_pl w now hs) = 0)"
  by (simp add: details_eq line_for_def total_pl_percentage_eq split: option.splits)

theorem zero_invested_percentage_witness:
  "(let h = \<lparr>instrument = ''BONUS'', quantity = 5, avg_cost = 0, invested = 0,
              current_value = 250, asset_class = ''Equity'', sector = ''Oil''\<rparr>;
        w = \<lparr>upstox_ltp = (\<lambda>k. None), mf_search = (\<lambda>q. None), mf_scheme = (\<lambda>c. None),
              float_of_str = (\<lambda>s. None)\<rparr>;
        r = calculate_portfolio_pl w ''2025-01-01T00:00:00'' [h]
    in (0::nat) < length [h] \<and> invested ([h] ! 0) = 0 \<and> pl_percentage (details r ! 0) = 0
       \<and> pl_amount (details r ! 0) = 250
       \<and> total_invested r = 0 \<and> total_pl_percentage r = 0 \<and> total_pl r = 250)"
proof -
  define h where "h = \<lparr>instrument = ''BONUS'', quantity = 5, avg_cost = 0, invested = 0,
              current_value = 250, asset_class = ''Equity'', sector = ''Oil''\<rparr>"
  define w where "w = \<lparr>upstox_ltp = (\<lambda>k. None), mf_search = (\<lambda>q. None),
              mf_scheme = (\<lambda>c. None), float_of_str = (\<lambda>s. None)\<rparr>"
  have i: "invested ([h] ! 0) = 0"
    by (simp add: h_def)
  have t: "total_invested (calculate_portfolio_pl w ''2025-01-01T00:00:00'' [h]) = 0"
    by (simp add: total_invested_eq h_def)
  have a: "pl_amount (details (calculate_portfolio_pl w ''2025-01-01T00:00:00'' [h]) ! 0) = 250"
    by (simp add: details_eq line_for_def resolve_price_def get_upstox_stock_price_def h_def w_def)
  have p: "total_pl (calculate_portfolio_pl w ''2025-01-01T00:00:00'' [h]) = 250"
    by (simp add: total_pl_eq total_invested_eq total_current_value_eq line_for_def
        resolve_price_def get_upstox_stock_price_def h_def w_def)
  show ?thesis
    using zero_invested_percentage [of 0 "[h]" w "''2025-01-01T00:00:00''"] i t a p
    unfolding Let_def h_def [symmetric] w_def [symmetric] by simp
qed

lemma calculate_cong:
  assumes "\<And>h. h \<in> set hs \<Longrightarrow> line_for h (resolve_price w1 h) = line_for h (resolve_price w2 h)"
  shows "calculate_portfolio_pl w1 now hs = calculate_portfolio_pl w2 now hs"
proof -
  have e1: "map (\<lambda>h. line_for h (resolve_price w1 h)) hs
      = map (\<lambda>h. line_for h (resolve_price w2 h)) hs"
    using assms by simp
  have e2: "map (\<lambda>h. pl_current_value (line_for h (resolve_price w1 h))) hs
      = map (\<lambda>h. pl_current_value (line_for h (resolve_price w2 h))) hs"
    using assms by simp
  show ?thesis
    unfolding calculate_portfolio_pl_def pl_loop_unfold e1 e2 by (rule refl)
qed

text \<open>
  C5. A response with status 401 makes \<open>get_upstox_stock_price\<close> return
  \<open>"TOKEN_EXPIRED"\<close>; and the aggregator does not tell \<open>"TOKEN_EXPIRED"\<close> from \<open>None\<close>:
  two worlds whose quotes differ only in that one says \<open>"TOKEN_EXPIRED"\<close> where the other
  says \<open>None\<close> give the same P&L data, and a line with either quote is on the fallback
  path (stale current value, marker \<open>API_FAILED\<close>).
\<close>

theorem token_expired_like_unavailable:
  "(upstox_ltp w (map_to_upstox_symbol symbol) = Some response \<and> status_code response = 401
      \<longrightarrow> get_upstox_stock_price w symbol = JStr ''TOKEN_EXPIRED'')
   \<and> ((\<forall>h \<in> set hs. resolve_price w1 h = resolve_price w2 h
                 \<or> (resolve_price w1 h = JStr ''TOKEN_EXPIRED'' \<and> resolve_price w2 h = JNull))
      \<longrightarrow> calculate_portfolio_pl w1 now hs = calculate_portfolio_pl w2 now hs
          \<and> (\<forall>i < length hs. resolve_price w1 (hs ! i) = JStr ''TOKEN_EXPIRED''
                  \<or> resolve_price w1 (hs ! i) = JNull
                \<longrightarrow> pl_current_price (details (calculate_portfolio_pl w1 now hs) ! i)
                      = JStr ''API_FAILED''
                  \<and> pl_current_value (details (calculate_portfolio_pl w1 now hs) ! i)
                      = current_value (hs ! i)))"
proof (intro conjI impI)
  assume "upstox_ltp w (map_to_upstox_symbol symbol) = Some response \<and> status_code response = 401"
  then show "get_upstox_stock_price w symbol = JStr ''TOKEN_EXPIRED''"
    by (simp add: get_upstox_stock_price_def)
next
  assume a: "\<forall>h \<in> set hs. resolve_price w1 h = resolve_price w2 h
                 \<or> (resolve_price w1 h = JStr ''TOKEN_EXPIRED'' \<and> resolve_price w2 h = JNull)"
  have "line_for h (JStr ''TOKEN_EXPIRED'') = line_for h JNull" for h
    by (simp add: line_for_def)
  with a have "line_for h (resolve_price w1 h) = line_for h (resolve_price w2 h)"
    if "h \<in> set hs" for h
    using that by metis
  then show "calculate_portfolio_pl w1 now hs = calculate_portfolio_pl w2 now hs"
    by (rule calculate_cong)
next
  show "\<forall>i < length hs. resolve_price w1 (hs ! i) = JStr ''TOKEN_EXPIRED''
                  \<or> resolve_price w1 (hs ! i) = JNull
                \<longrightarrow> pl_current_price (details (calculate_portfolio_pl w1 now hs) ! i)
                      = JStr ''API_FAILED''
                  \<and> pl_current_value (details (calculate_portfolio_pl w1 now hs) ! i)
                      = current_value (hs ! i)"
    by (auto simp: details_eq line_for_def)
qed

theorem token_expired_like_unavailable_witness:
  "(let h = \<lparr>instrument = ''OIL'', quantity = 10, avg_cost = 100, invested = 1000,
              current_value = 1100, asset_class = ''Equity'', sector = ''Oil''\<rparr>;
        response = \<lparr>status_code = 401, body = None\<rparr>;
        w1 = \<lparr>upstox_ltp = (\<lambda>k. Some response), mf_search = (\<lambda>q. None),
               mf_scheme = (\<lambda>c. None), float_of_str = (\<lambda>s. None)\<rparr>;
        w2 = \<lparr>upstox_ltp = (\<lambda>k. None), mf_search = (\<lambda>q. None),
               mf_scheme = (\<lambda>c. None), float_of_str = (\<lambda>s. None)\<rparr>
    in upstox_ltp w1 (map_to_upstox_symbol ''OIL'') = Some response
       \<and> status_code response = 401
       \<and> get_upstox_stock_price w1 ''OIL'' = JStr ''TOKEN_EXPIRED''
       \<and> (\<forall>h \<in> set [h]. resolve_price w1 h = resolve_price w2 h
                 \<or> (resolve_price w1 h = JStr ''TOKEN_EXPIRED'' \<and> resolve_price w2 h = JNull))
       \<and> calculate_portfolio_pl w1 ''2025-01-01T00:00:00'' [h]
           = calculate_portfolio_pl w2 ''2025-01-01T00:00:00'' [h]
       \<and> pl_current_price (details (calculate_portfolio_pl w1 ''2025-01-01T00:00:00'' [h]) ! 0)
           = JStr ''API_FAILED'')"
proof -
  define h where "h = \<lparr>instrument = ''OIL'', quantity = 10, avg_cost = 100, invested = 1000,
              current_value = 1100, asset_class = ''Equity'', sector = ''Oil''\<rparr>"
  define response where "response = \<lparr>status_code = 401, body = None\<rparr>"
  define w1 where "w1 = \<lparr>upstox_ltp = (\<lambda>k. Some response), mf_search = (\<lambda>q. None),
               mf_scheme = (\<lambda>c. None), float_of_str = (\<lambda>s. None)\<rparr>"
  define w2 where "w2 = \<lparr>upstox_ltp = (\<lambda>k. None), mf_search = (\<lambda>q. None),
               mf_scheme = (\<lambda>c. None), float_of_str = (\<lambda>s. None)\<rparr>"
  have u: "upstox_ltp w1 (map_to_upstox_symbol ''OIL'') = Some response"
    by (simp add: w1_def)
  have s: "status_code response = 401"
    by (simp add: response_def)
  have r1: "resolve_price w1 h = JStr ''TOKEN_EXPIRED''"
    by (simp add: resolve_price_def get_upstox_stock_price_def h_def w1_def response_def)
  have r2: "resolve_price w2 h = JNull"
    by (simp add: resolve_price_def get_upstox_stock_price_def h_def w2_def)
  have a: "\<forall>h \<in> set [h]. resolve_price w1 h = resolve_price w2 h
                 \<or> (resolve_price w1 h = JStr ''TOKEN_EXPIRED'' \<and> resolve_price w2 h = JNull)"
    using r1 r2 by simp
  note t = token_expired_like_unavailable
             [of w1 "''OIL''" response "[h]" w1 w2 "''2025-01-01T00:00:00''"]
  from t u s have g: "get_upstox_stock_price w1 ''OIL'' = JStr ''TOKEN_EXPIRED''"
    by blast
  from t a have c: "calculate_portfolio_pl w1 ''2025-01-01T00:00:00'' [h]
      = calculate_portfolio_pl w2 ''2025-01-01T00:00:00'' [h]"
    by blast
  from t a
  have "\<forall>i < length [h]. resolve_price w1 ([h] ! i) = JStr ''TOKEN_EXPIRED''
          \<longrightarrow> pl_current_price
                (details (calculate_portfolio_pl w1 ''2025-01-01T00:00:00'' [h]) ! i)
              = JStr ''API_FAILED''"
    by blast
  with r1
  have p: "pl_current_price (details (calculate_portfolio_pl w1 ''2025-01-01T00:00:00'' [h]) ! 0)
      = JStr ''API_FAILED''"
    by simp
  show ?thesis
    unfolding Let_def h_def [symmetric] response_def [symmetric] w1_def [symmetric]
      w2_def [symmetric]
    using u s g a c p by blast
qed


section \<open>Properties of the sentiment heuristic\<close>









lemma gold_analysis:
  "analyze_with_finbert_simulation
     ''Gold ETF experiences strong institutional inflows as central bank policies drive safe haven demand amid global economic uncertainty and inflation hedging strategies'' =
   \<lparr>sentiment = ''positive'', confidence = 0.78, score_positive = 0.78,
     score_negative = 0.066, score_neutral = 0.154, analysis_method = ''finbert_local''\<rparr>"
  by code_simp

text \<open>
  C7. On the news text of GOLD1 in the table of \<open>get_portfolio_sentiment\<close>, the scorer
  returns the label \<open>positive\<close> with confidence 0.78, which lies in \<open>[0.6, 0.95]\<close>.
\<close>

theorem gold_sentiment_positive:
  "(''GOLD1'', ''Gold ETF experiences strong institutional inflows as central bank policies drive safe haven demand amid global economic uncertainty and inflation hedging strategies'') \<in> set portfolio_stocks
   \<and> sentiment (analyze_with_finbert_simulation
         ''Gold ETF experiences strong institutional inflows as central bank policies drive safe haven demand amid global economic uncertainty and inflation hedging strategies'') = ''positive''
   \<and> confidence (analyze_with_finbert_simulation
         ''Gold ETF experiences strong institutional inflows as central bank policies drive safe haven demand amid global economic uncertainty and inflation hedging strategies'') = 0.78
   \<and> 0.6 \<le> confidence (analyze_with_finbert_simulation
         ''Gold ETF experiences strong institutional inflows as central bank policies drive safe haven demand amid global economic uncertainty and inflation hedging strategies'')
   \<and> confidence (analyze_with_finbert_simulation
         ''Gold ETF experiences strong institutional inflows as central bank policies drive safe haven demand amid global economic uncertainty and inflation hedging strategies'') \<le> 0.95"
  unfolding gold_analysis by (simp add: portfolio_stocks_def)

section \<open>Properties of the risk heuristics\<close>








lemma portfolio_risks_timestamp:
  "portfolio_risks now data =
     map_sum id (\<lambda>r. r\<lparr>report_timestamp := now\<rparr>) (portfolio_risks [] data)"
  by (simp add: portfolio_risks_def Let_def split: sum.splits prod.splits)

lemma risks_at_epoch:
  "get_portfolio_risks [] =
     Inr \<lparr>report_timestamp = [],
          total_portfolio_value = 234170.23,
          asset_class_allocation =
            [(''Commodity'', 608427000 / 23417023), (''Equity'', 1733275300 / 23417023)],
          sector_allocation =
            [(''Precious Metals'', 608427000 / 23417023), (''Mining'', 499383500 / 23417023),
             (''Oil'', 619251300 / 23417023), (''Large and Mid Cap Fund'', 614640500 / 23417023)],
          total_risks = 0, high_risk_count = 0, overall_risk_score = ''Low'',
          risks =
            [\<lparr>risk_type = ''Asset Allocation'', level = ''Good'', severity = ''info'',
               description = ''Equity exposure at 74.0% is within acceptable range'',
               recommendation = ''Current asset allocation is well balanced''\<rparr>,
             \<lparr>risk_type = ''Sector Diversification'', level = ''Good'', severity = ''success'',
               description = ''Largest sector exposure: Oil (26.4%)'',
               recommendation = ''Sector diversification is adequate''\<rparr>,
             \<lparr>risk_type = ''Currency Risk'', level = ''Low'', severity = ''info'',
               description = ''All holdings in domestic currency (INR)'',
               recommendation = ''Consider international exposure for currency diversification''\<rparr>]\<rparr>"
  by code_simp

text \<open>
  C10. The risks endpoint does not depend on the request: but for its timestamp, its
  answer is one fixed report. The equity share is 74.0 percent to one decimal (not above
  75), the largest sector share, that of Oil, 26.4 percent (not above 50); the report
  holds the Good entries for asset allocation and sector diversification, counts no
  warning and no High level, and its overall score is Low.
\<close>

theorem risks_endpoint_constant:
  "get_portfolio_risks now =
     Inr \<lparr>report_timestamp = now,
          total_portfolio_value = 234170.23,
          asset_class_allocation =
            [(''Commodity'', 608427000 / 23417023), (''Equity'', 1733275300 / 23417023)],
          sector_allocation =
            [(''Precious Metals'', 608427000 / 23417023), (''Mining'', 499383500 / 23417023),
             (''Oil'', 619251300 / 23417023), (''Large and Mid Cap Fund'', 614640500 / 23417023)],
          total_risks = 0, high_risk_count = 0, overall_risk_score = ''Low'',
          risks =
            [\<lparr>risk_type = ''Asset Allocation'', level = ''Good'', severity = ''info'',
               description = ''Equity exposure at 74.0% is within acceptable range'',
               recommendation = ''Current asset allocation is well balanced''\<rparr>,
             \<lparr>risk_type = ''Sector Diversification'', level = ''Good'', severity = ''success'',
               description = ''Largest sector exposure: Oil (26.4%)'',
               recommendation = ''Sector diversification is adequate''\<rparr>,
             \<lparr>risk_type = ''Currency Risk'', level = ''Low'', severity = ''info'',
               description = ''All holdings in domestic currency (INR)'',
               recommendation = ''Consider international exposure for currency diversification''\<rparr>]\<rparr>
   \<and> (73.95 :: rat) \<le> 1733275300 / 23417023 \<and> (1733275300 / 23417023 :: rat) < 74.05
   \<and> (1733275300 / 23417023 :: rat) \<le> 75
   \<and> (26.35 :: rat) \<le> 619251300 / 23417023 \<and> (619251300 / 23417023 :: rat) < 26.45
   \<and> (619251300 / 23417023 :: rat) \<le> 50"
proof -
  have "get_portfolio_risks now =
      map_sum id (\<lambda>r. r\<lparr>report_timestamp := now\<rparr>) (get_portfolio_risks [])"
    unfolding get_portfolio_risks_def by (rule portfolio_risks_timestamp)
  then show ?thesis
    by (simp add: risks_at_epoch)
qed


section \<open>Properties of the hedge analysis\<close>

lemma round_half_even_near:
  "of_int (round_half_even x) \<le> x + 1 / 2" "x - 1 / 2 \<le> of_int (round_half_even x)"
proof -
  define f where "f = \<lfloor>x\<rfloor>"
  have f: "of_int f \<le> x" "x < of_int f + 1"
    unfolding f_def by linarith+
  have r: "round_half_even x =
      (if x - of_int f < 1 / 2 then f else if x - of_int f > 1 / 2 then f + 1
       else if even f then f else f + 1)"
    by (simp add: round_half_even_def Let_def f_def)
  show "of_int (round_half_even x) \<le> x + 1 / 2"
    unfolding r using f by (simp split: if_splits)
  show "x - 1 / 2 \<le> of_int (round_half_even x)"
    unfolding r using f by (simp split: if_splits)
qed

lemma round_half_even_apart:
  assumes "x + 1 < y"
  shows "round_half_even x < round_half_even y"
proof -
  have "(of_int (round_half_even x) :: rat) \<le> x + 1 / 2"
    by (rule round_half_even_near)
  also have "\<dots> < y - 1 / 2"
    using assms by simp
  also have "\<dots> \<le> of_int (round_half_even y)"
    by (rule round_half_even_near)
  finally show ?thesis
    by simp
qed

lemma py_round_apart:
  assumes "x + 1 / 10 ^ n < y"
  shows "py_round x n < py_round y n"
proof -
  have "x * 10 ^ n + 1 < y * 10 ^ n"
    using assms by (simp add: field_simps)
  then have "round_half_even (x * 10 ^ n) < round_half_even (y * 10 ^ n)"
    by (rule round_half_even_apart)
  then show ?thesis
    by (simp add: py_round_def divide_strict_right_mono)
qed

lemma historical_series_length: "length (historical_series py cur_value base_date) = 12"
  by (simp add: historical_series_def)

lemma historical_series_first:
  "hd (historical_series py cur_value base_date) = historical_point py cur_value base_date 12"
proof -
  have "rev [1..<13] = 12 # rev [1..<12]"
    by (simp add: upt_rec numeral_eq_Suc)
  then show ?thesis
    by (simp add: historical_series_def)
qed

lemma first_point_value:
  "normal_value (historical_point py cur_value base_date 12) =
     py_round (cur_value * (950 + of_int (py_hash py (str_datetime py (minus_days base_date 360)) mod 100)) / 1000) 2"
  by (simp add: historical_point_def Let_def field_simps)

lemma hedge_shock_values:
  "shock_5 (get_hedge_analysis py None base_date) = py_round (234170.23 * 0.95) 2"
  "shock_10 (get_hedge_analysis py None base_date) = py_round (234170.23 * 0.90) 2"
  "total_current_value d > 0 \<Longrightarrow>
     shock_5 (get_hedge_analysis py (Some d) base_date) = py_round (total_current_value d * 0.95) 2
   \<and> shock_10 (get_hedge_analysis py (Some d) base_date) = py_round (total_current_value d * 0.90) 2"
  "length (historical_data (get_hedge_analysis py current_pl_data base_date)) = 12"
  by (simp_all add: get_hedge_analysis_def Let_def historical_series_length)

lemma historical_series_same_hash:
  assumes "\<And>i. i \<in> set [1..<13] \<Longrightarrow>
             py_hash py1 (str_datetime py1 (minus_days base_date (int i * 30))) mod 100
           = py_hash py2 (str_datetime py2 (minus_days base_date (int i * 30))) mod 100"
    and "strftime py1 = strftime py2"
  shows "historical_series py1 cur_value base_date = historical_series py2 cur_value base_date"
  using assms unfolding historical_series_def
  by (auto simp: historical_point_def Let_def)

text \<open>
  C9. The shock scenarios are the current value times 0.95 and 0.90 and the history has
  twelve entries (\<open>hedge_shock_values\<close>); its perturbation is read from the hash of
  the date strings, and with one hash function the series is fixed by the current value
  and the base date (\<open>historical_series_same_hash\<close>). But the hash of a string is
  salted anew in each interpreter process, and the series follows the salt: when two
  processes hash the string of the first month date to different residues modulo 100,
  then for the same (fallback) current value and the same base date their series differ,
  already in the first \<open>normal_value\<close>.
\<close>

theorem hedge_series_follows_hash_salt:
  assumes "py_hash py1 (str_datetime py1 (minus_days base_date 360)) mod 100
         \<noteq> py_hash py2 (str_datetime py2 (minus_days base_date 360)) mod 100"
  shows "historical_data (get_hedge_analysis py1 None base_date)
       \<noteq> historical_data (get_hedge_analysis py2 None base_date)"
proof -
  define m1 where "m1 = py_hash py1 (str_datetime py1 (minus_days base_date 360)) mod 100"
  define m2 where "m2 = py_hash py2 (str_datetime py2 (minus_days base_date 360)) mod 100"
  define v :: "int \<Rightarrow> rat" where "v m = 234170.23 * (950 + of_int m) / 1000" for m
  have apart: "py_round (v a) 2 < py_round (v b) 2" if "a < b" for a b
  proof (rule py_round_apart)
    from that have "(of_int a :: rat) + 1 \<le> of_int b"
      by (metis of_int_1 of_int_add of_int_le_iff zless_imp_add1_zle)
    then show "v a + 1 / 10 ^ 2 < v b"
      by (simp add: v_def field_simps)
  qed
  from assms have "m1 < m2 \<or> m2 < m1"
    by (auto simp: m1_def m2_def)
  then have "py_round (v m1) 2 \<noteq> py_round (v m2) 2"
    using apart [of m1 m2] apart [of m2 m1] by auto
  moreover have "normal_value (hd (historical_series py1 234170.23 base_date)) = py_round (v m1) 2"
    by (simp only: historical_series_first first_point_value v_def m1_def)
  moreover have "normal_value (hd (historical_series py2 234170.23 base_date)) = py_round (v m2) 2"
    by (simp only: historical_series_first first_point_value v_def m2_def)
  ultimately have "normal_value (hd (historical_series py1 234170.23 base_date))
      \<noteq> normal_value (hd (historical_series py2 234170.23 base_date))"
    by simp
  then show ?thesis
    by (auto simp: get_hedge_analysis_def Let_def)
qed

theorem hedge_series_follows_hash_salt_witness:
  "(let py1 = \<lparr>py_hash = (\<lambda>s. 17), str_datetime = (\<lambda>d. ''2024-01-07 09:30:00''),
               strftime = (\<lambda>d f. f)\<rparr>;
        py2 = \<lparr>py_hash = (\<lambda>s. 42), str_datetime = (\<lambda>d. ''2024-01-07 09:30:00''),
               strftime = (\<lambda>d f. f)\<rparr>;
        base_date = \<lparr>day_number = 739252, microsecond_of_day = 34200000000\<rparr>
    in py_hash py1 (str_datetime py1 (minus_days base_date 360)) mod 100
         \<noteq> py_hash py2 (str_datetime py2 (minus_days base_date 360)) mod 100
       \<and> historical_data (get_hedge_analysis py1 None base_date)
         \<noteq> historical_data (get_hedge_analysis py2 None base_date))"
proof -
  define py1 where "py1 = \<lparr>py_hash = (\<lambda>s::string. 17::int),
     str_datetime = (\<lambda>d::datetime. ''2024-01-07 09:30:00''),
     strftime = (\<lambda>(d::datetime) f::string. f)\<rparr>"
  define py2 where "py2 = \<lparr>py_hash = (\<lambda>s::string. 42::int),
     str_datetime = (\<lambda>d::datetime. ''2024-01-07 09:30:00''),
     strftime = (\<lambda>(d::datetime) f::string. f)\<rparr>"
  define base_date where
    "base_date = \<lparr>day_number = 739252, microsecond_of_day = 34200000000\<rparr>"
  have h: "py_hash py1 (str_datetime py1 (minus_days base_date 360)) mod 100
         \<noteq> py_hash py2 (str_datetime py2 (minus_days base_date 360)) mod 100"
    by (simp add: py1_def py2_def)
  from hedge_series_follows_hash_salt [OF h] h show ?thesis
    unfolding Let_def py1_def [symmetric] py2_def [symmetric] base_date_def [symmetric]
    by blast
qed


end
